theory Spec2Isabelle
  imports Complex_Main
begin

section \<open>Lineshape models of \<^verbatim>\<open>usrmodel.py\<close>\<close>

text \<open>
  The module works on one-dimensional numpy arrays of floats. They are modelled as
  \<^typ>\<open>real list\<close>: arithmetic is exact, and a result that numpy would report as
  \<^verbatim>\<open>nan\<close> or \<^verbatim>\<open>inf\<close> (a division by zero, the square root of a negative
  number) is the error value \<open>FloatingPointError\<close>, as a raised exception is an error value.
\<close>

datatype error = IndexError | ValueError | FloatingPointError

subsection \<open>Python and numpy primitives\<close>

text \<open>\<^verbatim>\<open>xs[0]\<close> and \<^verbatim>\<open>xs[-1]\<close>: both raise IndexError on an empty array.\<close>

definition first :: "'a list \<Rightarrow> error + 'a" where
  "first xs = (case xs of [] \<Rightarrow> Inl IndexError | y # _ \<Rightarrow> Inr y)"

definition final :: "'a list \<Rightarrow> error + 'a" where
  "final xs = (if xs = [] then Inl IndexError else Inr (last xs))"

text \<open>\<^verbatim>\<open>int(d / 2)\<close> on an integer \<open>d\<close>: true division, then truncation towards zero.\<close>

definition int_half :: "int \<Rightarrow> int" where
  "int_half d = (if 0 \<le> d then d div 2 else - ((- d) div 2))"

text \<open>\<^verbatim>\<open>xs[n:]\<close>: a negative start counts from the end and is clipped at the front.\<close>

definition slice_from :: "'a list \<Rightarrow> int \<Rightarrow> 'a list" where
  "slice_from xs n =
     (if 0 \<le> n then drop (nat n) xs else drop (nat (int (length xs) + n)) xs)"

text \<open>
  \<^verbatim>\<open>numpy.convolve(a, v, mode='valid')\<close>: both arguments must be non-empty, the longer
  of the two becomes the signal, and the result holds the products of the positions where
  the shorter one lies wholly inside the longer one, \<open>max M N - min M N + 1\<close> of them.
\<close>

definition valid_products :: "real list \<Rightarrow> real list \<Rightarrow> real list" where
  "valid_products a v =
     map (\<lambda>k. sum_list (map (\<lambda>j. v ! j * a ! (k + length v - 1 - j)) [0..<length v]))
       [0..<length a - length v + 1]"

definition np_convolve :: "real list \<Rightarrow> real list \<Rightarrow> error + real list" where
  "np_convolve a v =
     (if a = [] \<or> v = [] then Inl ValueError
      else if length a < length v then Inr (valid_products v a)
      else Inr (valid_products a v))"

subsection \<open>The discrete Fourier transform behind \<^verbatim>\<open>scipy.signal.convolve\<close>\<close>

text \<open>
  \<^verbatim>\<open>divide_out p n\<close> removes every factor \<open>p\<close> from \<open>n\<close>; a transform length is
  fast when only the factors 2, 3 and 5 are left in it. \<^verbatim>\<open>next_fast_len\<close> is the least
  fast length from the target on; the search stops at \<open>2 ^ target\<close>, which is fast.
\<close>

function divide_out :: "nat \<Rightarrow> nat \<Rightarrow> nat" where
  "divide_out p n =
     (if p \<le> 1 \<or> n = 0 \<or> n mod p \<noteq> 0 then n else divide_out p (n div p))"
  by pat_completeness auto
termination
  by (relation "measure snd") auto

declare divide_out.simps [simp del]

definition fast_len :: "nat \<Rightarrow> bool" where
  "fast_len n = (divide_out 5 (divide_out 3 (divide_out 2 n)) = 1)"

function search_fast_len :: "nat \<Rightarrow> nat \<Rightarrow> nat" where
  "search_fast_len b n =
     (if b \<le> n \<or> fast_len n then n else search_fast_len b (Suc n))"
  by pat_completeness auto
termination
  by (relation "measure (\<lambda>(b, n). b - n)") auto

declare search_fast_len.simps [simp del]

definition next_fast_len :: "nat \<Rightarrow> nat" where
  "next_fast_len target = search_fast_len (2 ^ target) target"

text \<open>
  \<^verbatim>\<open>fft(a, n)\<close> pads the input with zeros up to \<open>n\<close> points (or cuts it there);
  \<^verbatim>\<open>ifft\<close> is the inverse transform with the factor \<open>1 / n\<close>.
\<close>

definition padded :: "nat \<Rightarrow> real list \<Rightarrow> nat \<Rightarrow> complex" where
  "padded n xs j = (if j < length xs \<and> j < n then complex_of_real (xs ! j) else 0)"

definition twiddle :: "nat \<Rightarrow> int \<Rightarrow> complex" where
  "twiddle n m = cis (2 * pi * real_of_int m / real n)"

definition fft :: "nat \<Rightarrow> real list \<Rightarrow> complex list" where
  "fft n xs =
     map (\<lambda>k. \<Sum>j<n. padded n xs j * twiddle n (- (int j * int k))) [0..<n]"

definition ifft :: "nat \<Rightarrow> complex list \<Rightarrow> complex list" where
  "ifft n ys =
     map (\<lambda>j. (\<Sum>k<n. ys ! k * twiddle n (int j * int k)) / of_nat n) [0..<n]"

text \<open>
  \<^verbatim>\<open>scipy.signal.fftconvolve\<close>: the full convolution has \<open>s1 + s2 - 1\<close> points; both
  inputs are transformed at a fast length from there on, the spectra are multiplied, and the
  inverse transform is cut back to the full length. Mode \<^verbatim>\<open>valid\<close> keeps the centred
  \<open>s1 - s2 + 1\<close> points of it, after the longer input has been made the first one. An empty
  input gives an empty result.
\<close>

definition freq_domain_conv :: "real list \<Rightarrow> real list \<Rightarrow> nat \<Rightarrow> real list" where
  "freq_domain_conv in1 in2 shape =
     (let n = next_fast_len shape
      in take shape (map Re (ifft n (map (\<lambda>(s, t). s * t) (zip (fft n in1) (fft n in2))))))"

definition centered :: "real list \<Rightarrow> nat \<Rightarrow> real list" where
  "centered ret newshape = take newshape (drop ((length ret - newshape) div 2) ret)"

definition fftconvolve_valid :: "real list \<Rightarrow> real list \<Rightarrow> real list" where
  "fftconvolve_valid in1 in2 =
     centered (freq_domain_conv in1 in2 (length in1 + length in2 - 1))
       (length in1 - length in2 + 1)"

definition sc_convolve :: "real list \<Rightarrow> real list \<Rightarrow> error + real list" where
  "sc_convolve in1 in2 =
     (if in1 = [] \<or> in2 = [] then Inr []
      else if length in1 < length in2 then Inr (fftconvolve_valid in2 in1)
      else Inr (fftconvolve_valid in1 in2))"

subsection \<open>The convolution engine\<close>

text \<open>
  \<^verbatim>\<open>convolve\<close> and \<^verbatim>\<open>fft_convolve\<close> share everything but the library call: the data
  are extended by \<open>min_num_pts\<close> copies of their first and of their last value, convolved
  in mode \<^verbatim>\<open>valid\<close>, and \<open>min_num_pts\<close> points are cut out from \<open>n_start_data\<close> on.
\<close>

definition pad_data :: "real list \<Rightarrow> nat \<Rightarrow> error + real list" where
  "pad_data data min_num_pts =
     (case first data of Inl e \<Rightarrow> Inl e | Inr d0 \<Rightarrow>
      case final data of Inl e \<Rightarrow> Inl e | Inr dn \<Rightarrow>
        Inr (replicate min_num_pts d0 @ data @ replicate min_num_pts dn))"

definition cut_out :: "real list \<Rightarrow> nat \<Rightarrow> real list" where
  "cut_out out min_num_pts =
     (let n_start_data = int_half (int (length out) - int min_num_pts)
      in take min_num_pts (slice_from out n_start_data))"

definition convolve :: "real list \<Rightarrow> real list \<Rightarrow> error + real list" where
  "convolve data kernel' =
     (let min_num_pts = min (length data) (length kernel')
      in case pad_data data min_num_pts of Inl e \<Rightarrow> Inl e | Inr padded_data \<Rightarrow>
         case np_convolve padded_data kernel' of Inl e \<Rightarrow> Inl e | Inr out \<Rightarrow>
           Inr (cut_out out min_num_pts))"

definition fft_convolve :: "real list \<Rightarrow> real list \<Rightarrow> error + real list" where
  "fft_convolve data kernel' =
     (let min_num_pts = min (length data) (length kernel')
      in case pad_data data min_num_pts of Inl e \<Rightarrow> Inl e | Inr padded_data \<Rightarrow>
         case sc_convolve padded_data kernel' of Inl e \<Rightarrow> Inl e | Inr out \<Rightarrow>
           Inr (cut_out out min_num_pts))"

subsection \<open>The primitive lineshapes\<close>

text \<open>
  The three primitives come from the lineshape library \<^verbatim>\<open>lmfit.lineshapes\<close>, with its
  guard \<^verbatim>\<open>tiny\<close> against zero denominators. \<^verbatim>\<open>float_pow\<close> is the power \<^verbatim>\<open>x ** y\<close> on
  floats: \<open>0 ** 0 = 1\<close> and \<open>0 ** y = 0\<close> for positive \<open>y\<close>. A negative base, and a zero
  base with a negative exponent (an overflow in floating point), have no real value; the
  library only divides by \<^verbatim>\<open>max(tiny, x ** y)\<close>.
\<close>

definition tiny :: real where
  "tiny = 1 / 10 ^ 15"

definition s2pi :: real where
  "s2pi = sqrt (2 * pi)"

definition float_pow :: "real \<Rightarrow> real \<Rightarrow> real" where
  "float_pow x y = (if x = 0 then (if y = 0 then 1 else 0) else x powr y)"

definition not_zero :: "real \<Rightarrow> real" where
  "not_zero v = (if v < 0 then - max tiny \<bar>v\<bar> else max tiny \<bar>v\<bar>)"

definition mean :: "real list \<Rightarrow> real" where
  "mean x = sum_list x / real (length x)"

definition doniach :: "real list \<Rightarrow> real \<Rightarrow> real \<Rightarrow> real \<Rightarrow> real \<Rightarrow> real list" where
  "doniach x amplitude center sigma gamma =
     (let gm1 = 1 - gamma;
          scale = amplitude / max tiny (float_pow sigma gm1)
      in map (\<lambda>xi. let arg = (xi - center) / max tiny sigma
                  in scale * cos (pi * gamma / 2 + gm1 * arctan arg) /
                     float_pow (1 + arg\<^sup>2) (gm1 / 2)) x)"

definition gaussian :: "real list \<Rightarrow> real \<Rightarrow> real \<Rightarrow> real \<Rightarrow> real list" where
  "gaussian x amplitude center sigma =
     map (\<lambda>xi. (amplitude / max tiny (s2pi * sigma)) *
               exp (- ((1 * xi - center)\<^sup>2) / max tiny (2 * sigma\<^sup>2))) x"

datatype form = bose | maxwell | fermi

definition offset :: "form \<Rightarrow> real" where
  "offset f = (case f of bose \<Rightarrow> - 1 | maxwell \<Rightarrow> 0 | fermi \<Rightarrow> 1)"

text \<open>
  The thermal distribution is the real part of \<open>1 / (a + tiny * \<i>)\<close>, which is
  \<open>a / (a\<^sup>2 + tiny\<^sup>2)\<close>.
\<close>

definition thermal_distribution ::
  "real list \<Rightarrow> real \<Rightarrow> real \<Rightarrow> real \<Rightarrow> form \<Rightarrow> real list" where
  "thermal_distribution x amplitude center kt f =
     map (\<lambda>xi. let a = amplitude * exp ((xi - center) / not_zero kt) + offset f
               in a / (a\<^sup>2 + tiny\<^sup>2)) x"

subsection \<open>The composite lineshapes\<close>

text \<open>
  \<^verbatim>\<open>max(conv_temp)\<close> raises on an empty sequence; dividing by a maximum of zero leaves
  no finite values. The three functions differ in the signal they convolve only: each
  builds the kernel \<^verbatim>\<open>1 / (sqrt(2 pi) * sigma) * gaussian(x, 1, mean(x), sigma)\<close>, convolves,
  and returns \<^verbatim>\<open>amplitude * conv_temp / max(conv_temp)\<close>.
\<close>

definition max_list :: "real list \<Rightarrow> error + real" where
  "max_list xs = (case xs of [] \<Rightarrow> Inl ValueError | y # ys \<Rightarrow> Inr (fold max ys y))"

definition normalise :: "real \<Rightarrow> real list \<Rightarrow> error + real list" where
  "normalise amplitude conv_temp =
     (case max_list conv_temp of Inl e \<Rightarrow> Inl e | Inr m \<Rightarrow>
        if m = 0 then Inl FloatingPointError
        else Inr (map (\<lambda>c. amplitude * c / m) conv_temp))"

definition gauss_kernel :: "real list \<Rightarrow> real \<Rightarrow> error + real list" where
  "gauss_kernel x sigma =
     (if sqrt (2 * pi) * sigma = 0 then Inl FloatingPointError
      else Inr (map (\<lambda>g. 1 / (sqrt (2 * pi) * sigma) * g) (gaussian x 1 (mean x) sigma)))"

definition convolve_normalise :: "real \<Rightarrow> real list \<Rightarrow> real list \<Rightarrow> error + real list" where
  "convolve_normalise amplitude signal kernel' =
     (case fft_convolve signal kernel' of Inl e \<Rightarrow> Inl e | Inr conv_temp \<Rightarrow>
        normalise amplitude conv_temp)"

definition dublett ::
  "real list \<Rightarrow> real \<Rightarrow> real \<Rightarrow> real \<Rightarrow> real \<Rightarrow> real \<Rightarrow> real \<Rightarrow> real \<Rightarrow> real \<Rightarrow> error + real list" where
  "dublett x amplitude sigma gamma gaussian_sigma center soc height_ratio fct_coster_kronig =
     (case gauss_kernel x gaussian_sigma of Inl e \<Rightarrow> Inl e | Inr kernel' \<Rightarrow>
        convolve_normalise amplitude
          (map (\<lambda>(p, q). p + q)
             (zip (doniach x 1 center sigma gamma)
                  (doniach x height_ratio (center - soc) (fct_coster_kronig * sigma) gamma)))
          kernel')"

definition singlett ::
  "real list \<Rightarrow> real \<Rightarrow> real \<Rightarrow> real \<Rightarrow> real \<Rightarrow> real \<Rightarrow> error + real list" where
  "singlett x amplitude sigma gamma gaussian_sigma center =
     (case gauss_kernel x gaussian_sigma of Inl e \<Rightarrow> Inl e | Inr kernel' \<Rightarrow>
        convolve_normalise amplitude (doniach x 1 center sigma gamma) kernel')"

definition kb :: real where
  "kb = 86173 / 10 ^ 9"

definition fermi_edge :: "real list \<Rightarrow> real \<Rightarrow> real \<Rightarrow> real \<Rightarrow> real \<Rightarrow> error + real list" where
  "fermi_edge x amplitude center kt sigma =
     (case gauss_kernel x sigma of Inl e \<Rightarrow> Inl e | Inr kernel' \<Rightarrow>
        convolve_normalise amplitude (thermal_distribution x 1 center kt fermi) kernel')"

subsection \<open>Parameter hints and the three models\<close>

text \<open>
  A model of the fitting framework carries a prefix and, for each parameter name, a
  dictionary of hints. \<^verbatim>\<open>set_param_hint\<close> writes the keywords it is given into the
  dictionary of that name and leaves the other keys as they are; \<^verbatim>\<open>make_params\<close> turns
  every hint into a parameter named prefix + name, a keyword argument replacing the hinted
  value; \<^verbatim>\<open>update_param_vals\<close> assigns the values of the keywords that name an existing
  parameter. These three belong to the framework and are modelled as far as the \<^verbatim>\<open>guess\<close>
  methods depend on them; values are stored as they are given, with no clipping to the bounds.
\<close>

record param =
  pvalue :: "real option"
  pmin :: "real option"
  pmax :: "real option"
  pexpr :: "string option"

record model =
  prefix :: string
  param_hints :: "string \<Rightarrow> param option"

definition no_hint :: param where
  "no_hint = \<lparr>pvalue = None, pmin = None, pmax = None, pexpr = None\<rparr>"

definition keep :: "'a option \<Rightarrow> 'a option \<Rightarrow> 'a option" where
  "keep new old = (case new of None \<Rightarrow> old | Some v \<Rightarrow> Some v)"

definition set_param_hint ::
  "model \<Rightarrow> string \<Rightarrow> real option \<Rightarrow> real option \<Rightarrow> real option \<Rightarrow> string option \<Rightarrow> model" where
  "set_param_hint self name v lo hi e =
     (let old = (case param_hints self name of None \<Rightarrow> no_hint | Some h \<Rightarrow> h)
      in self\<lparr>param_hints := (param_hints self)(name \<mapsto>
           \<lparr>pvalue = keep v (pvalue old), pmin = keep lo (pmin old),
            pmax = keep hi (pmax old), pexpr = keep e (pexpr old)\<rparr>)\<rparr>)"

definition make_params :: "model \<Rightarrow> (string \<times> real) list \<Rightarrow> string \<Rightarrow> param option" where
  "make_params self kwargs name =
     (if take (length (prefix self)) name = prefix self then
        (case param_hints self (drop (length (prefix self)) name) of
           None \<Rightarrow> None
         | Some h \<Rightarrow>
             Some (h\<lparr>pvalue := keep (map_of kwargs (drop (length (prefix self)) name)) (pvalue h)\<rparr>))
      else None)"

definition update_param_vals ::
  "(string \<Rightarrow> param option) \<Rightarrow> string \<Rightarrow> (string \<times> real) list \<Rightarrow> string \<Rightarrow> param option" where
  "update_param_vals pars pre kwargs =
     fold (\<lambda>(key, v) ps. case ps (pre @ key) of
                            None \<Rightarrow> ps
                          | Some p \<Rightarrow> ps(pre @ key \<mapsto> p\<lparr>pvalue := Some v\<rparr>)) kwargs pars"

text \<open>
  The peak estimate \<^verbatim>\<open>guess_from_peak\<close> is the framework's; the \<^verbatim>\<open>guess\<close> methods take it
  as an argument and read four values from its result.
\<close>

record peak_pars =
  peak_sigma :: real
  peak_gamma :: real
  peak_amplitude :: real
  peak_center :: real

definition item :: "'a list \<Rightarrow> nat \<Rightarrow> error + 'a" where
  "item xs i = (if i < length xs then Inr (xs ! i) else Inl IndexError)"

definition span :: "real list \<Rightarrow> error + real" where
  "span x = (case final x of Inl e \<Rightarrow> Inl e | Inr xn \<Rightarrow>
               case first x of Inl e \<Rightarrow> Inl e | Inr x0 \<Rightarrow> Inr (xn - x0))"

definition min_list :: "real list \<Rightarrow> error + real" where
  "min_list xs = (case xs of [] \<Rightarrow> Inl ValueError | y # ys \<Rightarrow> Inr (fold min ys y))"

text \<open>
  \<^verbatim>\<open>doniach_ampl\<close> divides by \<^verbatim>\<open>sqrt(sum(x))\<close>: a sum that is negative or zero leaves no
  finite value. The sum under the other square root is a sum of positive terms.
\<close>

definition doniach_ampl :: "real \<Rightarrow> real list \<Rightarrow> real \<Rightarrow> real \<Rightarrow> error + real" where
  "doniach_ampl ampl x gaussian_sigma divisor =
     (if sum_list x \<le> 0 then Inl FloatingPointError
      else Inr (ampl * sqrt (sum_list (gaussian x 1 (mean x) gaussian_sigma)) /
                (divisor * sqrt (sum_list x))))"

definition singlett_set_paramhints_prefix :: "model \<Rightarrow> model" where
  "singlett_set_paramhints_prefix self0 =
     (let pre = prefix self0;
          self = set_param_hint self0 ''amplitude'' (Some 100) (Some 0) None None;
          self = set_param_hint self ''sigma'' (Some 0.2) (Some 0) None None;
          self = set_param_hint self ''gamma'' (Some 0.02) (Some 0) None None;
          self = set_param_hint self ''gaussian_sigma'' (Some 0.2) (Some 0) None None;
          self = set_param_hint self ''center'' (Some 100) (Some 0) None None;
          self = set_param_hint self ''gaussian_fwhm'' None None None
                   (Some (''2*'' @ pre @ ''gaussian_sigma*1.1774''));
          self = set_param_hint self ''lorentzian_fwhm'' None None None
                   (Some (pre @ ''sigma*(2+'' @ pre @ ''gamma*2.5135+('' @ pre @ ''gamma*3.6398)**4)''));
          self = set_param_hint self ''fwhm'' None None None
                   (Some (''0.5346*'' @ pre @ ''lorentzian_fwhm+'' @
                          ''sqrt(0.2166*'' @ pre @ ''lorentzian_fwhm**2+'' @ pre @ ''gaussian_fwhm**2)''));
          self = set_param_hint self ''height'' None None None (Some (pre @ ''amplitude''));
          self = set_param_hint self ''area'' None None None
                   (Some (pre @ ''fwhm*'' @ pre @ ''height''))
      in self)"

definition ConvGaussianDoniachSinglett :: "string \<Rightarrow> model" where
  "ConvGaussianDoniachSinglett pre =
     singlett_set_paramhints_prefix \<lparr>prefix = pre, param_hints = (\<lambda>_. None)\<rparr>"

definition singlett_guess ::
  "(real list \<Rightarrow> real list \<Rightarrow> error + peak_pars) \<Rightarrow> model \<Rightarrow> real list \<Rightarrow> real list option \<Rightarrow>
   (string \<times> real) list \<Rightarrow> (error + (string \<Rightarrow> param option) option) \<times> model" where
  "singlett_guess guess_from_peak self0 data x_opt kwargs =
     (case x_opt of
        None \<Rightarrow> (Inr None, self0)
      | Some x \<Rightarrow>
         (case span x of
            Inl e \<Rightarrow> (Inl e, self0)
          | Inr width \<Rightarrow>
             (let self = set_param_hint self0 ''sigma'' None None (Some (0.3 * width)) None;
                  self = set_param_hint self ''gaussian_sigma'' None None (Some (0.3 * width)) None
              in case guess_from_peak data x of
                   Inl e \<Rightarrow> (Inl e, self)
                 | Inr doniach_pars \<Rightarrow>
                    (case item x 1 of
                       Inl e \<Rightarrow> (Inl e, self)
                     | Inr x1 \<Rightarrow>
                        (case first x of
                           Inl e \<Rightarrow> (Inl e, self)
                         | Inr x0 \<Rightarrow>
                            (let gaussian_sigma = (peak_sigma doniach_pars + x1 - x0) / 2
                             in case doniach_ampl (peak_amplitude doniach_pars) x gaussian_sigma 2 of
                                  Inl e \<Rightarrow> (Inl e, self)
                                | Inr ampl \<Rightarrow>
                                   (Inr (Some (update_param_vals
                                      (make_params self
                                         [(''amplitude'', ampl),
                                          (''sigma'', peak_sigma doniach_pars),
                                          (''gamma'', peak_gamma doniach_pars),
                                          (''gaussian_sigma'', gaussian_sigma),
                                          (''center'', peak_center doniach_pars)])
                                      (prefix self) kwargs)), self)))))))"

definition dublett_set_paramhints_prefix :: "model \<Rightarrow> model" where
  "dublett_set_paramhints_prefix self0 =
     (let pre = prefix self0;
          self = set_param_hint self0 ''amplitude'' (Some 100) (Some 0) None None;
          self = set_param_hint self ''sigma'' (Some 0.2) (Some 0) None None;
          self = set_param_hint self ''gamma'' (Some 0.02) (Some 0) None None;
          self = set_param_hint self ''gaussian_sigma'' (Some 0.2) (Some 0) None None;
          self = set_param_hint self ''center'' (Some 285) None None None;
          self = set_param_hint self ''soc'' (Some 2.0) None None None;
          self = set_param_hint self ''height_ratio'' (Some 0.75) (Some 0) None None;
          self = set_param_hint self ''fct_coster_kronig'' (Some 1) (Some 0) None None;
          self = set_param_hint self ''gaussian_fwhm'' None None None
                   (Some (''2*'' @ pre @ ''gaussian_sigma*1.1774''));
          self = set_param_hint self ''lorentzian_fwhm_p1'' None None None
                   (Some (pre @ ''sigma*(2+'' @ pre @ ''gamma*2.5135+('' @ pre @ ''gamma*3.6398)**4)''));
          self = set_param_hint self ''lorentzian_fwhm_p2'' None None None
                   (Some (pre @ ''sigma*(2+'' @ pre @ ''gamma*2.5135+('' @ pre @ ''gamma*3.6398)**4)*'' @
                          pre @ ''fct_coster_kronig''));
          self = set_param_hint self ''fwhm_p1'' None None None
                   (Some (''0.5346*'' @ pre @ ''lorentzian_fwhm_p1+'' @
                          ''sqrt(0.2166*'' @ pre @ ''lorentzian_fwhm_p1**2+'' @ pre @ ''gaussian_fwhm**2)''));
          self = set_param_hint self ''fwhm_p2'' None None None
                   (Some (''0.5346*'' @ pre @ ''lorentzian_fwhm_p2+'' @
                          ''sqrt(0.2166*'' @ pre @ ''lorentzian_fwhm_p2**2+'' @ pre @ ''gaussian_fwhm**2)''));
          self = set_param_hint self ''height_p1'' None None None (Some (pre @ ''amplitude''));
          self = set_param_hint self ''height_p2'' None None None
                   (Some (pre @ ''amplitude*'' @ pre @ ''height_ratio''));
          self = set_param_hint self ''area_p1'' None None None
                   (Some (pre @ ''fwhm_p1*'' @ pre @ ''height_p1''));
          self = set_param_hint self ''area_p2'' None None None
                   (Some (pre @ ''fwhm_p2*'' @ pre @ ''height_p2''))
      in self)"

definition ConvGaussianDoniachDublett :: "string \<Rightarrow> model" where
  "ConvGaussianDoniachDublett pre =
     dublett_set_paramhints_prefix \<lparr>prefix = pre, param_hints = (\<lambda>_. None)\<rparr>"

definition dublett_guess ::
  "(real list \<Rightarrow> real list \<Rightarrow> error + peak_pars) \<Rightarrow> model \<Rightarrow> real list \<Rightarrow> real list option \<Rightarrow>
   (string \<times> real) list \<Rightarrow> (error + (string \<Rightarrow> param option) option) \<times> model" where
  "dublett_guess guess_from_peak self data x_opt kwargs =
     (case x_opt of
        None \<Rightarrow> (Inr None, self)
      | Some x \<Rightarrow>
         (case guess_from_peak data x of
            Inl e \<Rightarrow> (Inl e, self)
          | Inr doniach_pars \<Rightarrow>
             (case item x 1 of
                Inl e \<Rightarrow> (Inl e, self)
              | Inr x1 \<Rightarrow>
                 (case first x of
                    Inl e \<Rightarrow> (Inl e, self)
                  | Inr x0 \<Rightarrow>
                     (let gaussian_sigma = (peak_sigma doniach_pars + x1 - x0) / 2
                      in case doniach_ampl (peak_amplitude doniach_pars) x gaussian_sigma 5 of
                           Inl e \<Rightarrow> (Inl e, self)
                         | Inr ampl \<Rightarrow>
                            (case span x of
                               Inl e \<Rightarrow> (Inl e, self)
                             | Inr width \<Rightarrow>
                                (Inr (Some (update_param_vals
                                   (make_params self
                                      [(''amplitude'', ampl),
                                       (''sigma'', peak_sigma doniach_pars / 5),
                                       (''gamma'', peak_gamma doniach_pars),
                                       (''gaussian_sigma'', gaussian_sigma / 5),
                                       (''center'', peak_center doniach_pars),
                                       (''soc'', 0.3 * width),
                                       (''height_ratio'', 1)])
                                   (prefix self) kwargs)), self)))))))"

definition fermi_set_paramhints_prefix :: "model \<Rightarrow> model" where
  "fermi_set_paramhints_prefix self0 =
     (let self = set_param_hint self0 ''kt'' (Some 0.02585) (Some 0) None None;
          self = set_param_hint self ''sigma'' (Some 0.2) (Some 0) None None;
          self = set_param_hint self ''center'' (Some 100) (Some 0) None None;
          self = set_param_hint self ''amplitude'' (Some 100) (Some 0) None None
      in self)"

definition FermiEdgeModel :: "string \<Rightarrow> model" where
  "FermiEdgeModel pre = fermi_set_paramhints_prefix \<lparr>prefix = pre, param_hints = (\<lambda>_. None)\<rparr>"

definition fermi_guess ::
  "model \<Rightarrow> real list \<Rightarrow> real list option \<Rightarrow> (string \<times> real) list \<Rightarrow>
   (error + (string \<Rightarrow> param option) option) \<times> model" where
  "fermi_guess self0 data x_opt kwargs =
     (case x_opt of
        None \<Rightarrow> (Inr None, self0)
      | Some x \<Rightarrow>
         (case min_list x of
            Inl e \<Rightarrow> (Inl e, self0)
          | Inr min_x \<Rightarrow>
             (case max_list x of
                Inl e \<Rightarrow> (Inl e, self0)
              | Inr max_x \<Rightarrow>
                 (let self = set_param_hint self0 ''center'' (Some (mean x)) (Some min_x) (Some max_x) None;
                      self = set_param_hint self ''kt'' (Some (kb * 300)) (Some 0) (Some (kb * 1500)) None
                  in case max_list data of
                       Inl e \<Rightarrow> (Inl e, self)
                     | Inr max_data \<Rightarrow>
                        (case min_list data of
                           Inl e \<Rightarrow> (Inl e, self)
                         | Inr min_data \<Rightarrow>
                            (let self = set_param_hint self ''amplitude''
                                          (Some ((max_data - min_data) / 10)) (Some 0)
                                          (Some (max_data - min_data)) None;
                                 self = set_param_hint self ''sigma''
                                          (Some ((max_x - min_x) / real (length x))) (Some 0) (Some 2) None
                             in (Inr (Some (update_param_vals (make_params self []) (prefix self) kwargs)),
                                 self)))))))"

subsection \<open>The constraint expressions\<close>

text \<open>
  The derived parameters are expression strings over the primary parameters; these are the
  functions the strings of the singlet model denote.
\<close>

definition gaussian_fwhm :: "real \<Rightarrow> real" where
  "gaussian_fwhm gaussian_sigma = 2 * gaussian_sigma * 1.1774"

definition lorentzian_fwhm :: "real \<Rightarrow> real \<Rightarrow> real" where
  "lorentzian_fwhm sigma gamma = sigma * (2 + gamma * 2.5135 + (gamma * 3.6398) ^ 4)"

definition fwhm :: "real \<Rightarrow> real \<Rightarrow> real \<Rightarrow> real" where
  "fwhm sigma gamma gaussian_sigma =
     0.5346 * lorentzian_fwhm sigma gamma +
     sqrt (0.2166 * (lorentzian_fwhm sigma gamma)\<^sup>2 + (gaussian_fwhm gaussian_sigma)\<^sup>2)"

subsection \<open>The convolution algorithm as the specification words it\<close>

text \<open>
  The specification's four steps, written down independently of the code: \<open>L\<close> copies of
  the first and of the last value around the data, the region where the kernel lies wholly
  inside the padded array (\<open>len(padded) - len(kernel) + 1\<close> points, none when that is not
  positive), \<open>n_start = floor((len(out) - L) / 2)\<close>, and the points of \<open>out\<close> with index
  from \<open>n_start\<close> up to \<open>n_start + L\<close>.
\<close>

definition spec_valid_region :: "real list \<Rightarrow> real list \<Rightarrow> real list" where
  "spec_valid_region p k =
     map (\<lambda>i. sum_list (map (\<lambda>j. k ! j * p ! (i + length k - 1 - j)) [0..<length k]))
       [0..<nat (int (length p) - int (length k) + 1)]"

definition convolve_spec :: "real list \<Rightarrow> real list \<Rightarrow> real list" where
  "convolve_spec data kernel' =
     (let L = min (length data) (length kernel');
          padded_data = replicate L (hd data) @ data @ replicate L (last data);
          out = spec_valid_region padded_data kernel';
          n_start = (int (length out) - int L) div 2
      in drop (nat n_start) (take (nat (n_start + int L)) out))"

text \<open>
  The full linear convolution at index \<open>j\<close>, the value the transform is compared with.
\<close>

definition full_products :: "real list \<Rightarrow> real list \<Rightarrow> nat \<Rightarrow> real" where
  "full_products a v j =
     (\<Sum>q<length v. if q \<le> j \<and> j - q < length a then v ! q * a ! (j - q) else 0)"

section \<open>Properties of the convolution engine\<close>

lemma length_valid_products: "length (valid_products a v) = length a - length v + 1"
  by (simp add: valid_products_def)

lemma search_fast_len_ge: "n \<le> search_fast_len b n"
proof (induction b n rule: search_fast_len.induct)
  case (1 b n)
  show ?case
  proof (cases "b \<le> n \<or> fast_len n")
    case True
    then show ?thesis by (subst search_fast_len.simps) simp
  next
    case False
    with 1 have "Suc n \<le> search_fast_len b (Suc n)" by simp
    with False show ?thesis by (subst search_fast_len.simps) simp
  qed
qed

lemma next_fast_len_ge: "target \<le> next_fast_len target"
  by (simp add: next_fast_len_def search_fast_len_ge)

lemma length_freq_domain_conv: "length (freq_domain_conv in1 in2 shape) = shape"
  using next_fast_len_ge [of shape] by (simp add: freq_domain_conv_def Let_def ifft_def)

lemma length_fftconvolve_valid:
  "length in2 \<le> length in1 \<Longrightarrow> in2 \<noteq> [] \<Longrightarrow>
   length (fftconvolve_valid in1 in2) = length in1 - length in2 + 1"
  by (cases in2) (auto simp add: fftconvolve_valid_def centered_def length_freq_domain_conv)

lemma pad_data_nonempty:
  "data \<noteq> [] \<Longrightarrow>
   pad_data data L = Inr (replicate L (hd data) @ data @ replicate L (last data))"
  by (cases data) (simp_all add: pad_data_def first_def final_def)

lemma pad_data_empty: "pad_data [] L = Inl IndexError"
  by (simp add: pad_data_def first_def)

lemma length_cut_out_enough: "L \<le> length out \<Longrightarrow> length (cut_out out L) = L"
  by (simp add: cut_out_def Let_def slice_from_def int_half_def)

lemma length_cut_out_short: "length out < L \<Longrightarrow> length (cut_out out L) < L"
  by (auto simp add: cut_out_def Let_def slice_from_def int_half_def)

lemma cut_out_enough:
  "L \<le> length out \<Longrightarrow>
   cut_out out L = take L (drop ((length out - L) div 2) out)"
  by (simp add: cut_out_def Let_def slice_from_def int_half_def nat_div_distrib nat_diff_distrib of_nat_diff)

lemma np_convolve_padded:
  assumes "data \<noteq> []" "kernel' \<noteq> []"
  shows "\<exists>out. np_convolve (replicate L (hd data) @ data @ replicate L (last data)) kernel' = Inr out
     \<and> length out = (let P = length data + 2 * L in if P < length kernel' then length kernel' - P + 1 else P - length kernel' + 1)"
  using assms by (auto simp add: np_convolve_def length_valid_products Let_def)

lemma sc_convolve_padded:
  assumes "data \<noteq> []" "kernel' \<noteq> []"
  shows "\<exists>out. sc_convolve (replicate L (hd data) @ data @ replicate L (last data)) kernel' = Inr out
     \<and> length out = (let P = length data + 2 * L in if P < length kernel' then length kernel' - P + 1 else P - length kernel' + 1)"
  using assms by (auto simp add: sc_convolve_def length_fftconvolve_valid Let_def)

lemma enough_iff:
  fixes N M :: nat
  assumes "0 < N" "0 < M"
  shows "min N M \<le> (let P = N + 2 * min N M in if P < M then M - P + 1 else P - M + 1)
     \<longleftrightarrow> M \<le> 2 * N + 1 \<or> 4 * N \<le> M + 1"
  using assms by (auto simp add: Let_def min_def)

lemma length_cut_out_iff: "length (cut_out out L) = L \<longleftrightarrow> L \<le> length out"
  using length_cut_out_enough [of L out] length_cut_out_short [of out L] by force

lemma length_cut_out_le: "length (cut_out out L) \<le> L"
  by (simp add: cut_out_def Let_def)

lemma convolve_length_iff:
  assumes "data \<noteq> []" "kernel' \<noteq> []"
  shows "\<exists>r. convolve data kernel' = Inr r \<and>
    length r \<le> min (length data) (length kernel') \<and>
    (length r = min (length data) (length kernel') \<longleftrightarrow>
       length kernel' \<le> 2 * length data + 1 \<or> 4 * length data \<le> length kernel' + 1)"
proof -
  let ?L = "min (length data) (length kernel')"
  obtain out where o: "np_convolve (replicate ?L (hd data) @ data @ replicate ?L (last data)) kernel' = Inr out"
    and l: "length out = (let P = length data + 2 * ?L in if P < length kernel' then length kernel' - P + 1 else P - length kernel' + 1)"
    using np_convolve_padded [OF assms] by blast
  have c: "convolve data kernel' = Inr (cut_out out ?L)"
    using assms o by (simp add: convolve_def Let_def pad_data_nonempty)
  have "?L \<le> length out \<longleftrightarrow> length kernel' \<le> 2 * length data + 1 \<or> 4 * length data \<le> length kernel' + 1"
    unfolding l using enough_iff [of "length data" "length kernel'"] assms by simp
  with c show ?thesis
    using length_cut_out_le [of out ?L] by (simp add: length_cut_out_iff)
qed

lemma fft_convolve_length_iff:
  assumes "data \<noteq> []" "kernel' \<noteq> []"
  shows "\<exists>r. fft_convolve data kernel' = Inr r \<and>
    length r \<le> min (length data) (length kernel') \<and>
    (length r = min (length data) (length kernel') \<longleftrightarrow>
       length kernel' \<le> 2 * length data + 1 \<or> 4 * length data \<le> length kernel' + 1)"
proof -
  let ?L = "min (length data) (length kernel')"
  obtain out where o: "sc_convolve (replicate ?L (hd data) @ data @ replicate ?L (last data)) kernel' = Inr out"
    and l: "length out = (let P = length data + 2 * ?L in if P < length kernel' then length kernel' - P + 1 else P - length kernel' + 1)"
    using sc_convolve_padded [OF assms] by blast
  have c: "fft_convolve data kernel' = Inr (cut_out out ?L)"
    using assms o by (simp add: fft_convolve_def Let_def pad_data_nonempty)
  have "?L \<le> length out \<longleftrightarrow> length kernel' \<le> 2 * length data + 1 \<or> 4 * length data \<le> length kernel' + 1"
    unfolding l using enough_iff [of "length data" "length kernel'"] assms by simp
  with c show ?thesis
    using length_cut_out_le [of out ?L] by (simp add: length_cut_out_iff)
qed

lemma valid_products_spec:
  "length k \<le> length p \<Longrightarrow> valid_products p k = spec_valid_region p k"
  by (simp add: valid_products_def spec_valid_region_def nat_diff_distrib of_nat_diff nat_add_distrib)

lemma cut_out_spec:
  assumes "L \<le> length out"
  shows "cut_out out L =
    (let n_start = (int (length out) - int L) div 2
     in drop (nat n_start) (take (nat (n_start + int L)) out))"
proof -
  have n: "nat ((int (length out) - int L) div 2) = (length out - L) div 2"
    using assms by (simp add: nat_div_distrib nat_diff_distrib)
  have m: "nat ((int (length out) - int L) div 2 + int L) = (length out - L) div 2 + L"
    using assms by (simp add: nat_add_distrib nat_div_distrib nat_diff_distrib)
  show ?thesis
    unfolding Let_def n m using assms by (simp add: cut_out_enough drop_take)
qed

text \<open>
  Claim C1 as the code has it: on non-empty data of length \<open>N\<close> and a non-empty kernel of
  length \<open>M\<close> both engines return a sequence of at most \<open>min N M\<close> points, and its length
  is \<open>min N M\<close> exactly when \<open>M \<le> 2 N + 1\<close> or \<open>4 N - 1 \<le> M\<close>; this covers every kernel
  that is no longer than the data, and equal lengths. For the other kernel lengths the
  result is strictly shorter.
\<close>

theorem engine_length:
  assumes "data \<noteq> []" and "kernel' \<noteq> []"
  shows "\<exists>r1 r2. convolve data kernel' = Inr r1 \<and> fft_convolve data kernel' = Inr r2 \<and>
    length r1 \<le> min (length data) (length kernel') \<and>
    length r2 \<le> min (length data) (length kernel') \<and>
    (length r1 = min (length data) (length kernel') \<longleftrightarrow>
       length kernel' \<le> 2 * length data + 1 \<or> 4 * length data \<le> length kernel' + 1) \<and>
    (length r2 = min (length data) (length kernel') \<longleftrightarrow>
       length kernel' \<le> 2 * length data + 1 \<or> 4 * length data \<le> length kernel' + 1)"
  using convolve_length_iff [OF assms] fft_convolve_length_iff [OF assms] by blast

theorem engine_length_witness:
  "\<exists>r1 r2. convolve [1, 2] [1, 1] = Inr r1 \<and> fft_convolve [1, 2] [1, 1] = Inr r2 \<and>
     length r1 = 2 \<and> length r2 = 2"
  using engine_length [of "[1, 2]" "[1, 1]"] by (auto simp add: numeral_2_eq_2)

text \<open>
  Claim C1 as stated fails: a kernel of six points on data of two points leaves one point,
  not \<open>min 2 6 = 2\<close>.
\<close>

theorem engine_length_counterexample:
  "convolve [1, 2] [1, 1, 1, 1, 1, 1] = Inr [9] \<and>
   length [9 :: real] \<noteq> min (length [1, 2 :: real]) (length [1, 1, 1, 1, 1, 1 :: real])"
  by code_simp

text \<open>
  Claim C4 as the code has it: for non-empty data of length \<open>N\<close> and a non-empty kernel of
  length \<open>M \<le> 2 N + 1\<close>, \<^verbatim>\<open>convolve\<close> returns what the specification's four steps
  return: the padded array of length \<open>N + 2 L\<close>, its valid-mode convolution of length
  \<open>len(padded) - M + 1\<close>, and the \<open>L\<close> points from \<open>floor((len(out) - L) / 2)\<close> on.
\<close>

theorem convolve_meets_spec:
  assumes "data \<noteq> []" and "kernel' \<noteq> []" and "length kernel' \<le> 2 * length data + 1"
  shows "convolve data kernel' = Inr (convolve_spec data kernel')"
proof -
  let ?L = "min (length data) (length kernel')"
  let ?p = "replicate ?L (hd data) @ data @ replicate ?L (last data)"
  have fit: "length kernel' \<le> length ?p"
    using assms by (cases data) (auto simp add: min_def)
  then have np: "np_convolve ?p kernel' = Inr (spec_valid_region ?p kernel')"
    using assms by (simp add: np_convolve_def valid_products_spec)
  have len: "length (spec_valid_region ?p kernel') = length ?p - length kernel' + 1"
    using fit by (simp add: spec_valid_region_def nat_diff_distrib nat_add_distrib)
  have enough: "?L \<le> length (spec_valid_region ?p kernel')"
    unfolding len using assms by (auto simp add: min_def)
  have "convolve data kernel' = Inr (cut_out (spec_valid_region ?p kernel') ?L)"
    using assms(1) np by (simp add: convolve_def Let_def pad_data_nonempty)
  also have "cut_out (spec_valid_region ?p kernel') ?L = convolve_spec data kernel'"
    unfolding cut_out_spec [OF enough] convolve_spec_def Let_def ..
  finally show ?thesis .
qed

theorem convolve_meets_spec_witness:
  "[1, 2, 3 :: real] \<noteq> [] \<and> [0, 1, 0 :: real] \<noteq> [] \<and>
   length [0, 1, 0 :: real] \<le> 2 * length [1, 2, 3 :: real] + 1 \<and>
   convolve [1, 2, 3] [0, 1, 0] = Inr (convolve_spec [1, 2, 3] [0, 1, 0])"
  using convolve_meets_spec [of "[1, 2, 3]" "[0, 1, 0]"] by simp

text \<open>
  Claim C4 as stated fails on a kernel longer than the padded array: numpy then swaps the
  two arguments, so the output is not of length \<open>len(padded) - M + 1\<close>. One data point and
  four kernel points give one output point, where the four steps give none.
\<close>

theorem convolve_meets_spec_counterexample:
  "convolve [1] [1, 1, 1, 1] = Inr [3] \<and> convolve_spec [1] [1, 1, 1, 1] = []"
  by code_simp

subsection \<open>The transform computes the direct convolution\<close>

lemma twiddle_add: "twiddle n (a + b) = twiddle n a * twiddle n b"
  by (simp add: twiddle_def cis_mult ring_distribs add_divide_distrib)

lemma twiddle_zero: "twiddle n 0 = 1"
  by (simp add: twiddle_def)

lemma twiddle_power: "twiddle n (m * int k) = twiddle n m ^ k"
  by (simp add: twiddle_def DeMoivre algebra_simps)

lemma twiddle_period: "0 < n \<Longrightarrow> twiddle n m ^ n = 1"
proof -
  assume n: "0 < n"
  have "twiddle n m ^ n = cis (2 * pi * real_of_int m)"
    using n by (simp add: twiddle_def DeMoivre)
  also have "\<dots> = 1"
    by (rule cis_multiple_2pi) simp
  finally show ?thesis .
qed

lemma twiddle_eq_one_iff:
  assumes "0 < n"
  shows "twiddle n m = 1 \<longleftrightarrow> int n dvd m"
proof
  assume "twiddle n m = 1"
  then have "cos (2 * pi * real_of_int m / real n) = 1"
    by (simp add: twiddle_def complex_eq_iff)
  then obtain k :: int where k: "2 * pi * real_of_int m / real n = real_of_int k * 2 * pi"
    using cos_one_2pi_int by blast
  then have "real_of_int m = real_of_int k * real n"
    using assms by (simp add: field_simps)
  then have "real_of_int m = real_of_int (k * int n)" by simp
  then have "m = k * int n" using of_int_eq_iff by blast
  then show "int n dvd m" by simp
next
  assume "int n dvd m"
  then obtain k where "m = int n * k" ..
  then have "2 * pi * real_of_int m / real n = 2 * pi * real_of_int k"
    using assms by simp
  then show "twiddle n m = 1"
    unfolding twiddle_def by (simp only: ) (rule cis_multiple_2pi, simp)
qed

lemma twiddle_sum:
  assumes "0 < n"
  shows "(\<Sum>k<n. twiddle n (m * int k)) = (if int n dvd m then of_nat n else 0)"
proof (cases "int n dvd m")
  case True
  then have "twiddle n m = 1" using assms by (simp add: twiddle_eq_one_iff)
  then show ?thesis using True by (simp add: twiddle_power)
next
  case False
  then have ne: "twiddle n m \<noteq> 1" using assms by (simp add: twiddle_eq_one_iff)
  have "(\<Sum>k<n. twiddle n (m * int k)) = (\<Sum>k<n. twiddle n m ^ k)"
    by (simp add: twiddle_power)
  also have "\<dots> = (twiddle n m ^ n - 1) / (twiddle n m - 1)"
    using ne by (rule geometric_sum)
  also have "\<dots> = 0" using assms by (simp add: twiddle_period)
  finally show ?thesis using False by simp
qed


lemma spectra_product:
  assumes "k < n"
  shows "map (\<lambda>(s, t). s * t) (zip (fft n a) (fft n v)) ! k * twiddle n (int j * int k)
     = (\<Sum>p<n. \<Sum>q<n. padded n a p * padded n v q *
          twiddle n ((int j - int p - int q) * int k))"
proof -
  have tw: "twiddle n (- (int p * int k)) * twiddle n (- (int q * int k)) *
      twiddle n (int j * int k) = twiddle n ((int j - int p - int q) * int k)" for p q
    by (simp add: twiddle_add [symmetric] algebra_simps)
  have "map (\<lambda>(s, t). s * t) (zip (fft n a) (fft n v)) ! k * twiddle n (int j * int k)
      = (\<Sum>p<n. padded n a p * twiddle n (- (int p * int k))) *
        (\<Sum>q<n. padded n v q * twiddle n (- (int q * int k))) * twiddle n (int j * int k)"
    using assms by (simp add: fft_def)
  also have "\<dots> = (\<Sum>p<n. \<Sum>q<n. (padded n a p * twiddle n (- (int p * int k))) *
        (padded n v q * twiddle n (- (int q * int k)))) * twiddle n (int j * int k)"
    by (simp only: sum_product)
  also have "\<dots> = (\<Sum>p<n. \<Sum>q<n. (padded n a p * twiddle n (- (int p * int k))) *
        (padded n v q * twiddle n (- (int q * int k))) * twiddle n (int j * int k))"
    by (simp only: sum_distrib_right)
  also have "\<dots> = (\<Sum>p<n. \<Sum>q<n. padded n a p * padded n v q *
        (twiddle n (- (int p * int k)) * twiddle n (- (int q * int k)) *
         twiddle n (int j * int k)))"
    by (simp add: mult_ac)
  finally show ?thesis by (simp only: tw)
qed

lemma ifft_product:
  assumes "0 < n" and "j < n"
  shows "ifft n (map (\<lambda>(s, t). s * t) (zip (fft n a) (fft n v))) ! j
     = (\<Sum>p<n. \<Sum>q<n. padded n a p * padded n v q *
          (if int n dvd int j - int p - int q then 1 else 0))"
proof -
  let ?ys = "map (\<lambda>(s, t). s * t) (zip (fft n a) (fft n v))"
  let ?d = "\<lambda>p q. int j - int p - int q"
  have "(\<Sum>k<n. ?ys ! k * twiddle n (int j * int k))
      = (\<Sum>k<n. \<Sum>p<n. \<Sum>q<n. padded n a p * padded n v q * twiddle n (?d p q * int k))"
    by (rule sum.cong) (simp_all add: spectra_product)
  also have "\<dots> = (\<Sum>p<n. \<Sum>k<n. \<Sum>q<n. padded n a p * padded n v q * twiddle n (?d p q * int k))"
    by (rule sum.swap)
  also have "\<dots> = (\<Sum>p<n. \<Sum>q<n. \<Sum>k<n. padded n a p * padded n v q * twiddle n (?d p q * int k))"
    by (rule sum.cong [OF refl]) (rule sum.swap)
  also have "\<dots> = (\<Sum>p<n. \<Sum>q<n. padded n a p * padded n v q *
        (if int n dvd ?d p q then of_nat n else 0))"
    by (simp only: sum_distrib_left [symmetric] twiddle_sum [OF assms(1)])
  finally have "(\<Sum>k<n. ?ys ! k * twiddle n (int j * int k)) / of_nat n
      = (\<Sum>p<n. \<Sum>q<n. padded n a p * padded n v q *
          (if int n dvd ?d p q then of_nat n else 0)) / of_nat n"
    by simp
  also have "\<dots> = (\<Sum>p<n. \<Sum>q<n. padded n a p * padded n v q *
          (if int n dvd ?d p q then 1 else 0))"
    using assms(1) by (auto simp add: sum_divide_distrib intro!: sum.cong)
  finally show ?thesis using assms(2) by (simp add: ifft_def)
qed


lemma wrapped_term:
  assumes "length a + length v \<le> Suc n" and "j < n" and "p < n" and "q < n"
  shows "padded n a p * padded n v q * (if int n dvd int j - int p - int q then 1 else 0)
     = (if p = j - q \<and> q \<le> j then padded n a p * padded n v q else 0)"
proof (cases "p < length a \<and> q < length v")
  case True
  have "int n dvd int j - int p - int q \<longleftrightarrow> int j - int p - int q = 0"
  proof
    assume d: "int n dvd int j - int p - int q"
    show "int j - int p - int q = 0"
    proof (rule ccontr)
      assume "int j - int p - int q \<noteq> 0"
      then have "\<bar>int n\<bar> \<le> \<bar>int j - int p - int q\<bar>" using d by (rule dvd_imp_le_int)
      with True assms show False by linarith
    qed
  qed simp
  also have "\<dots> \<longleftrightarrow> p = j - q \<and> q \<le> j" by linarith
  finally show ?thesis by simp
next
  case False
  then have "padded n a p * padded n v q = 0" by (auto simp add: padded_def)
  then show ?thesis by simp
qed

lemma wrapped_sum:
  assumes "length a + length v \<le> Suc n" and "j < n"
  shows "(\<Sum>p<n. \<Sum>q<n. padded n a p * padded n v q *
            (if int n dvd int j - int p - int q then 1 else 0))
     = complex_of_real (full_products a v j)"
proof -
  let ?g = "\<lambda>q. if q \<le> j \<and> j - q < length a then complex_of_real (v ! q * a ! (j - q)) else 0"
  have "(\<Sum>p<n. \<Sum>q<n. padded n a p * padded n v q *
            (if int n dvd int j - int p - int q then 1 else 0))
      = (\<Sum>p<n. \<Sum>q<n. if p = j - q \<and> q \<le> j then padded n a p * padded n v q else 0)"
    using assms by (intro sum.cong refl) (simp add: wrapped_term)
  also have "\<dots> = (\<Sum>q<n. \<Sum>p<n. if p = j - q \<and> q \<le> j then padded n a p * padded n v q else 0)"
    by (rule sum.swap)
  also have "\<dots> = (\<Sum>q<n. if q \<le> j then padded n a (j - q) * padded n v q else 0)"
  proof (rule sum.cong [OF refl])
    fix q assume "q \<in> {..<n}"
    have "(\<Sum>p<n. if p = j - q \<and> q \<le> j then padded n a p * padded n v q else 0)
        = (if q \<le> j then (\<Sum>p<n. if p = j - q then padded n a p * padded n v q else 0) else 0)"
      by simp
    also have "\<dots> = (if q \<le> j then padded n a (j - q) * padded n v q else 0)"
      using assms(2) by (simp add: sum.delta less_imp_diff_less)
    finally show "(\<Sum>p<n. if p = j - q \<and> q \<le> j then padded n a p * padded n v q else 0)
        = (if q \<le> j then padded n a (j - q) * padded n v q else 0)" .
  qed
  also have "\<dots> = (\<Sum>q<n. if q < length v then ?g q else 0)"
    using assms(2) by (intro sum.cong refl) (auto simp add: padded_def)
  also have "\<dots> = (\<Sum>q<length v. ?g q)"
  proof -
    have "(\<Sum>q<length v. ?g q) = (\<Sum>q<length v. if q < length v then ?g q else 0)"
      by (intro sum.cong refl) simp
    also have "\<dots> = (\<Sum>q<n. if q < length v then ?g q else 0)"
    proof (cases "length v \<le> n")
      case True
      then show ?thesis by (intro sum.mono_neutral_left) auto
    next
      case False
      with assms(1) have "\<And>q. \<not> j - q < length a" by arith
      then show ?thesis by (simp cong: if_cong)
    qed
    finally show ?thesis by simp
  qed
  also have "\<dots> = complex_of_real (full_products a v j)"
    by (simp add: full_products_def if_distrib [of complex_of_real] cong: if_cong)
  finally show ?thesis .
qed

lemma nth_freq_domain_conv:
  assumes "shape = length a + length v - 1" and "j < shape"
  shows "freq_domain_conv a v shape ! j = full_products a v j"
proof -
  let ?n = "next_fast_len shape"
  have n: "shape \<le> ?n" by (rule next_fast_len_ge)
  with assms have j: "j < ?n" and pos: "0 < ?n" and fit: "length a + length v \<le> Suc ?n"
    by simp_all
  have "freq_domain_conv a v shape ! j
      = Re (ifft ?n (map (\<lambda>(s, t). s * t) (zip (fft ?n a) (fft ?n v))) ! j)"
    using assms(2) j by (simp add: freq_domain_conv_def Let_def ifft_def)
  also have "\<dots> = full_products a v j"
    by (simp only: ifft_product [OF pos j] wrapped_sum [OF fit j] Re_complex_of_real)
  finally show ?thesis .
qed


lemma nth_valid_products:
  "k < length a - length v + 1 \<Longrightarrow>
   valid_products a v ! k = (\<Sum>q<length v. v ! q * a ! (k + length v - 1 - q))"
  by (simp add: valid_products_def interv_sum_list_conv_sum_set_nat atLeast0LessThan
      del: upt_Suc)

lemma fftconvolve_valid_direct:
  assumes "length v \<le> length a" and "v \<noteq> []"
  shows "fftconvolve_valid a v = valid_products a v"
proof (rule nth_equalityI)
  show "length (fftconvolve_valid a v) = length (valid_products a v)"
    using assms by (simp add: length_fftconvolve_valid length_valid_products)
next
  fix k assume "k < length (fftconvolve_valid a v)"
  then have k: "k < length a - length v + 1"
    using assms by (simp add: length_fftconvolve_valid)
  from assms have pos: "0 < length v" by simp
  let ?shape = "length a + length v - 1"
  have start: "(?shape - (length a - length v + 1)) div 2 = length v - 1"
    using assms pos by (simp add: algebra_simps)
  have inside: "length v - 1 + k < ?shape" using assms pos k by arith
  have "fftconvolve_valid a v ! k
      = drop ((?shape - (length a - length v + 1)) div 2) (freq_domain_conv a v ?shape) ! k"
    using k by (simp only: fftconvolve_valid_def centered_def length_freq_domain_conv nth_take)
  also have "\<dots> = freq_domain_conv a v ?shape ! (length v - 1 + k)"
    unfolding start using inside by (intro nth_drop) (simp add: length_freq_domain_conv)
  also have "\<dots> = full_products a v (length v - 1 + k)"
    using inside by (simp add: nth_freq_domain_conv)
  also have "\<dots> = (\<Sum>q<length v. v ! q * a ! (k + length v - 1 - q))"
    unfolding full_products_def
  proof (rule sum.cong [OF refl])
    fix q assume "q \<in> {..<length v}"
    then have q: "q < length v" by simp
    with k assms have "q \<le> length v - 1 + k" and "length v - 1 + k - q < length a"
      and "length v - 1 + k - q = k + length v - 1 - q"
      by arith+
    then show "(if q \<le> length v - 1 + k \<and> length v - 1 + k - q < length a
        then v ! q * a ! (length v - 1 + k - q) else 0) = v ! q * a ! (k + length v - 1 - q)"
      by simp
  qed
  also have "\<dots> = valid_products a v ! k"
    using k by (simp add: nth_valid_products)
  finally show "fftconvolve_valid a v ! k = valid_products a v ! k" .
qed

lemma sc_convolve_direct:
  "a \<noteq> [] \<Longrightarrow> v \<noteq> [] \<Longrightarrow> sc_convolve a v = np_convolve a v"
  by (simp add: sc_convolve_def np_convolve_def fftconvolve_valid_direct)

lemma fft_convolve_direct:
  assumes "data \<noteq> []" and "kernel' \<noteq> []"
  shows "fft_convolve data kernel' = convolve data kernel'"
  using assms
  by (simp add: fft_convolve_def convolve_def Let_def pad_data_nonempty sc_convolve_direct)

text \<open>
  Claim C2: on non-empty data and a kernel of the same length both engines return the same
  sequence, of that length. The transform is the exact discrete Fourier transform here, so
  the results are equal, not only close.
\<close>

theorem engines_agree:
  assumes "data \<noteq> []" and "length data = length kernel'"
  shows "\<exists>r. convolve data kernel' = Inr r \<and> fft_convolve data kernel' = Inr r \<and>
    length r = length data"
proof -
  from assms have k: "kernel' \<noteq> []" by auto
  obtain r where r: "convolve data kernel' = Inr r"
    and l: "length r = min (length data) (length kernel') \<longleftrightarrow>
       length kernel' \<le> 2 * length data + 1 \<or> 4 * length data \<le> length kernel' + 1"
    using convolve_length_iff [OF assms(1) k] by blast
  from l assms(2) have "length r = length data" by simp
  with r fft_convolve_direct [OF assms(1) k] show ?thesis by simp
qed

theorem engines_agree_witness:
  "\<exists>r. convolve [1, 2] [3, 4] = Inr r \<and> fft_convolve [1, 2] [3, 4] = Inr r \<and>
     length r = length [1, 2 :: real]"
  using engines_agree [of "[1, 2]" "[3, 4]"] by simp

section \<open>Properties of the models\<close>

subsection \<open>The width expressions\<close>

lemma lorentzian_fwhm_strict:
  assumes "0 < sigma" "0 \<le> g1" "g1 < g2"
  shows "lorentzian_fwhm sigma g1 < lorentzian_fwhm sigma g2"
proof -
  have "(g1 * 3.6398) ^ 4 \<le> (g2 * 3.6398) ^ 4"
    using assms by (intro power_mono) auto
  moreover have "g1 * 2.5135 < g2 * 2.5135"
    using assms by simp
  ultimately have "2 + g1 * 2.5135 + (g1 * 3.6398) ^ 4 < 2 + g2 * 2.5135 + (g2 * 3.6398) ^ 4"
    by linarith
  then show ?thesis
    unfolding lorentzian_fwhm_def using assms(1) by (rule mult_strict_left_mono)
qed

text \<open>
  Claim C7 as the code has it: for a positive \<open>sigma\<close> the Lorentzian width expression is
  strictly increasing in \<open>gamma\<close> on \<open>gamma \<ge> 0\<close>, and the Gaussian width expression is
  strictly increasing in \<open>gaussian_sigma\<close> everywhere.
\<close>

theorem fwhm_strictly_increasing:
  assumes "0 < sigma" "0 \<le> g1" "g1 < g2" "s1 < s2"
  shows "lorentzian_fwhm sigma g1 < lorentzian_fwhm sigma g2 \<and> gaussian_fwhm s1 < gaussian_fwhm s2"
  using lorentzian_fwhm_strict [OF assms(1-3)] assms(4) by (simp add: gaussian_fwhm_def)

theorem fwhm_strictly_increasing_witness:
  "(0::real) < 1 \<and> (0::real) \<le> 0 \<and> (0::real) < 1 \<and>
   lorentzian_fwhm 1 0 < lorentzian_fwhm 1 1 \<and> gaussian_fwhm 0 < gaussian_fwhm 1"
  using fwhm_strictly_increasing [of 1 0 1 0 1] by simp

text \<open>
  Claim C7 as stated fails at the declared lower bound \<open>sigma = 0\<close>, where the Lorentzian
  width is zero for every \<open>gamma\<close>.
\<close>

theorem fwhm_strictly_increasing_counterexample:
  "(0::real) \<le> 0 \<and> (0::real) \<le> 0 \<and> (0::real) < 1 \<and> \<not> lorentzian_fwhm 0 0 < lorentzian_fwhm 0 1"
  by (simp add: lorentzian_fwhm_def)

subsection \<open>The initial guesses\<close>

text \<open>
  Claim C9: without a grid each of the three \<^verbatim>\<open>guess\<close> methods returns \<^verbatim>\<open>None\<close> and leaves
  the model, its parameter hints included, as it was, whatever the data, the keywords and
  the peak estimate.
\<close>

theorem guess_without_grid:
  "singlett_guess guess_from_peak self data None kwargs = (Inr None, self) \<and>
   dublett_guess guess_from_peak self data None kwargs = (Inr None, self) \<and>
   fermi_guess self data None kwargs = (Inr None, self)"
  by (simp add: singlett_guess_def dublett_guess_def fermi_guess_def)

lemma max_list_Max: "xs \<noteq> [] \<Longrightarrow> max_list xs = Inr (Max (set xs))"
  by (cases xs) (simp_all add: max_list_def Max.set_eq_fold del: set_simps)

lemma min_list_Min: "xs \<noteq> [] \<Longrightarrow> min_list xs = Inr (Min (set xs))"
  by (cases xs) (simp_all add: min_list_def Min.set_eq_fold del: set_simps)

lemma sum_list_upper:
  "(\<And>v. v \<in> set xs \<Longrightarrow> v \<le> (b::real)) \<Longrightarrow> sum_list xs \<le> real (length xs) * b"
  by (induction xs) (auto simp add: algebra_simps add_mono)

lemma sum_list_lower:
  "(\<And>v. v \<in> set xs \<Longrightarrow> (b::real) \<le> v) \<Longrightarrow> real (length xs) * b \<le> sum_list xs"
  by (induction xs) (auto simp add: algebra_simps add_mono)

lemma mean_bounds:
  assumes "x \<noteq> []"
  shows "Min (set x) \<le> mean x" and "mean x \<le> Max (set x)"
proof -
  have pos: "0 < real (length x)" using assms by simp
  have "real (length x) * Min (set x) \<le> sum_list x"
    by (rule sum_list_lower) simp
  then show "Min (set x) \<le> mean x"
    unfolding mean_def using pos by (simp add: pos_le_divide_eq mult.commute)
  have "sum_list x \<le> real (length x) * Max (set x)"
    by (rule sum_list_upper) simp
  then show "mean x \<le> Max (set x)"
    unfolding mean_def using pos by (simp add: pos_divide_le_eq mult.commute)
qed

lemma prefix_set_param_hint [simp]: "prefix (set_param_hint self name v lo hi e) = prefix self"
  by (simp add: set_param_hint_def Let_def)

lemma hints_set_param_hint:
  "param_hints (set_param_hint self name v lo hi e) n =
     (if n = name then
        Some \<lparr>pvalue = keep v (pvalue (case param_hints self name of None \<Rightarrow> no_hint | Some h \<Rightarrow> h)),
              pmin = keep lo (pmin (case param_hints self name of None \<Rightarrow> no_hint | Some h \<Rightarrow> h)),
              pmax = keep hi (pmax (case param_hints self name of None \<Rightarrow> no_hint | Some h \<Rightarrow> h)),
              pexpr = keep e (pexpr (case param_hints self name of None \<Rightarrow> no_hint | Some h \<Rightarrow> h))\<rparr>
      else param_hints self n)"
  by (simp add: set_param_hint_def Let_def)

lemma make_params_prefixed:
  "prefix self = pre \<Longrightarrow> make_params self kwargs (pre @ name) =
     (case param_hints self name of None \<Rightarrow> None
      | Some h \<Rightarrow> Some (h\<lparr>pvalue := keep (map_of kwargs name) (pvalue h)\<rparr>))"
  by (auto simp add: make_params_def split: option.splits)

text \<open>
  Claim C8: on data and a grid of equal length, at least two points each, the grid strictly
  increasing and the data not constant, the guess of the Fermi edge model (with no keyword
  overrides) returns a parameter set in which \<open>center\<close> has the value \<open>mean x\<close>, which lies
  between the least and the greatest grid point, and \<open>amplitude\<close> has a tenth of the data
  range, which lies between zero and the data range.
\<close>

theorem fermi_guess_bounds:
  assumes "length data = length x" and "2 \<le> length x"
    and "sorted_wrt (<) x" and "\<exists>d \<in> set data. d \<noteq> hd data"
  shows "\<exists>params self' c a.
           fermi_guess self data (Some x) [] = (Inr (Some params), self') \<and>
           params (prefix self @ ''center'') = Some c \<and>
           pvalue c = Some (mean x) \<and>
           Min (set x) \<le> mean x \<and> mean x \<le> Max (set x) \<and>
           params (prefix self @ ''amplitude'') = Some a \<and>
           pvalue a = Some ((Max (set data) - Min (set data)) / 10) \<and>
           0 \<le> (Max (set data) - Min (set data)) / 10 \<and>
           (Max (set data) - Min (set data)) / 10 \<le> Max (set data) - Min (set data)"
proof -
  from assms have x: "x \<noteq> []" and d: "data \<noteq> []" by auto
  have range: "Min (set data) \<le> Max (set data)"
    using d by simp
  show ?thesis
    using mean_bounds [OF x] range
    by (simp add: fermi_guess_def max_list_Max [OF x] min_list_Min [OF x] max_list_Max [OF d]
        min_list_Min [OF d] Let_def update_param_vals_def make_params_prefixed
        hints_set_param_hint keep_def)
qed

theorem fermi_guess_bounds_witness:
  "length [0, 1::real] = length [1, 2::real] \<and> 2 \<le> length [1, 2::real] \<and>
   sorted_wrt (<) [1, 2::real] \<and> (\<exists>d \<in> set [0, 1::real]. d \<noteq> hd [0, 1::real]) \<and>
   (\<exists>params self' c a.
      fermi_guess (FermiEdgeModel ''f_'') [0, 1] (Some [1, 2]) [] = (Inr (Some params), self') \<and>
      params (prefix (FermiEdgeModel ''f_'') @ ''center'') = Some c \<and>
      pvalue c = Some (mean [1, 2]) \<and>
      Min (set [1, 2::real]) \<le> mean [1, 2] \<and> mean [1, 2] \<le> Max (set [1, 2::real]) \<and>
      params (prefix (FermiEdgeModel ''f_'') @ ''amplitude'') = Some a \<and>
      pvalue a = Some ((Max (set [0, 1::real]) - Min (set [0, 1::real])) / 10) \<and>
      0 \<le> (Max (set [0, 1::real]) - Min (set [0, 1::real])) / 10 \<and>
      (Max (set [0, 1::real]) - Min (set [0, 1::real])) / 10
        \<le> Max (set [0, 1::real]) - Min (set [0, 1::real]))"
  using fermi_guess_bounds [of "[0, 1]" "[1, 2]" "FermiEdgeModel ''f_''"] by simp

end
